theory Spec2Isabelle
  imports Main "HOL-Library.Sublist"
begin

section \<open>Data model (src/types/index.ts)\<close>

text \<open>
  JavaScript numbers that hold pixel coordinates, identifiers, status codes and
  lengths are modelled as \<open>int\<close>; strings are \<open>char list\<close>. A field that the JSON
  payload may leave out (the code reads it through \<open>?.\<close>) is an \<open>option\<close>, with
  \<open>None\<close> for \<open>undefined\<close>/\<open>null\<close>.
\<close>

datatype DNSStatus = NOERROR | NXDOMAIN | SERVFAIL | TIMEOUT | REFUSED

datatype WHOISStatus = W_registered | W_available | W_unknown | W_error

record DomainAnalytics =
  an_domain :: string
  dns_status :: "DNSStatus option"
  http_status :: "int option"
  whois_status :: "WHOISStatus option"
  analyzed_at :: "string option"
  registered_at :: "string option"
  expiry_date :: "string option"
  last_updated :: "string option"
  nameservers :: "string list option"

text \<open>The fields \<open>x, y, width, height\<close> of \<open>AreaCoordinates\<close> carry the prefix \<open>coord_\<close>.\<close>

record AreaCoordinates =
  coord_x :: int
  coord_y :: int
  coord_width :: int
  coord_height :: int

record AreaData =
  area_id :: int
  domain :: string
  title :: string
  href :: string
  coordinates :: AreaCoordinates
  rawCoords :: "int list"
  analytics :: "DomainAnalytics option"
  hasAnalytics :: bool

record AppMetadata =
  totalAreas :: int

record AppData =
  metadata :: AppMetadata
  areas :: "AreaData list"

text \<open>
  \<open>SearchFilters\<close>: every key is optional. The nested objects \<open>domainLength\<close> and
  \<open>dateRange\<close> have optional members of their own (\<open>min\<close>/\<open>max\<close> are named
  \<open>len_min\<close>/\<open>len_max\<close>, \<open>start\<close>/\<open>end\<close> are \<open>range_start\<close>/\<open>range_end\<close>); the filter
  key \<open>hasAnalytics\<close> is named \<open>wantAnalytics\<close> to keep it apart from the area's flag.
\<close>

record LengthRange =
  len_min :: "int option"
  len_max :: "int option"

record DateRange =
  range_start :: "string option"
  range_end :: "string option"

record SearchFilters =
  dnsStatus :: "DNSStatus option"
  httpStatus :: "string option"
  whoisStatus :: "WHOISStatus option"
  wantAnalytics :: "bool option"
  domainLength :: "LengthRange option"
  dateRange :: "DateRange option"
  hasNameservers :: "bool option"
  searchInTitle :: "bool option"

definition noFilters :: SearchFilters where
  "noFilters = \<lparr>dnsStatus = None, httpStatus = None, whoisStatus = None,
     wantAnalytics = None, domainLength = None, dateRange = None,
     hasNameservers = None, searchInTitle = None\<rparr>"

section \<open>JavaScript primitives used by the code\<close>

text \<open>\<open>Number.prototype.toString\<close> on an integer: its decimal numeral.\<close>

definition digitChar :: "nat \<Rightarrow> char" where
  "digitChar d = ''0123456789'' ! d"

fun digits10 :: "nat \<Rightarrow> string" where
  "digits10 n = (if n < 10 then [digitChar n]
                 else digits10 (n div 10) @ [digitChar (n mod 10)])"

declare digits10.simps [simp del]

definition toString :: "int \<Rightarrow> string" where
  "toString i = (if i < 0 then CHR ''-'' # digits10 (nat (- i)) else digits10 (nat i))"

text \<open>
  A \<open>Date\<close> object is its time value, \<open>None\<close> for an invalid date. The constructor
  \<open>new Date(string)\<close> is a parameter \<open>D\<close> of the functions below. A relational
  comparison with an invalid date is false.
\<close>

type_synonym date_parser = "string \<Rightarrow> int option"

definition date_ge :: "int option \<Rightarrow> int option \<Rightarrow> bool" where
  "date_ge a b = (case (a, b) of (Some s, Some t) \<Rightarrow> s \<ge> t | _ \<Rightarrow> False)"

definition date_le :: "int option \<Rightarrow> int option \<Rightarrow> bool" where
  "date_le a b = (case (a, b) of (Some s, Some t) \<Rightarrow> s \<le> t | _ \<Rightarrow> False)"

text \<open>Truthiness of an optional string: present and not empty.\<close>

definition truthy :: "string option \<Rightarrow> bool" where
  "truthy s = (case s of None \<Rightarrow> False | Some t \<Rightarrow> t \<noteq> [])"

section \<open>The filter engine: \<open>applyFilters\<close> (src/stores/appStore.ts)\<close>

definition hasFilters :: "SearchFilters \<Rightarrow> bool" where
  "hasFilters f = (dnsStatus f \<noteq> None \<or> httpStatus f \<noteq> None \<or> whoisStatus f \<noteq> None \<or>
     wantAnalytics f \<noteq> None \<or> domainLength f \<noteq> None \<or> dateRange f \<noteq> None \<or>
     hasNameservers f \<noteq> None \<or> searchInTitle f \<noteq> None)"

definition dnsCondition :: "DNSStatus \<Rightarrow> AreaData \<Rightarrow> bool" where
  "dnsCondition v area = (Option.bind (analytics area) dns_status = Some v)"

definition httpCondition :: "string \<Rightarrow> AreaData \<Rightarrow> bool" where
  "httpCondition v area =
     (map_option toString (Option.bind (analytics area) http_status) = Some v)"

definition whoisCondition :: "WHOISStatus \<Rightarrow> AreaData \<Rightarrow> bool" where
  "whoisCondition v area = (Option.bind (analytics area) whois_status = Some v)"

definition analyticsCondition :: "bool \<Rightarrow> AreaData \<Rightarrow> bool" where
  "analyticsCondition v area = (hasAnalytics area = v)"

definition lengthCondition :: "LengthRange \<Rightarrow> AreaData \<Rightarrow> bool" where
  "lengthCondition r area =
     (let domainLength = int (length (domain area))
      in (case len_min r of None \<Rightarrow> True | Some lo \<Rightarrow> domainLength \<ge> lo) \<and>
         (case len_max r of None \<Rightarrow> True | Some hi \<Rightarrow> domainLength \<le> hi))"

definition dateCondition :: "date_parser \<Rightarrow> DateRange \<Rightarrow> AreaData \<Rightarrow> bool" where
  "dateCondition D r area =
     (let startDate = (if truthy (range_start r) then Some (D (the (range_start r))) else None);
          endDate = (if truthy (range_end r) then Some (D (the (range_end r))) else None);
          reg = Option.bind (analytics area) registered_at
      in if \<not> truthy reg then False
         else (let registrationDate = D (the reg)
               in (case startDate of None \<Rightarrow> True | Some s \<Rightarrow> date_ge registrationDate s) \<and>
                  (case endDate of None \<Rightarrow> True | Some e \<Rightarrow> date_le registrationDate e)))"

definition nameserversCondition :: "bool \<Rightarrow> AreaData \<Rightarrow> bool" where
  "nameserversCondition v area =
     (let hasNs = (case Option.bind (analytics area) nameservers of
                     None \<Rightarrow> False | Some ns \<Rightarrow> length ns > 0)
      in if v then hasNs else \<not> hasNs)"

definition dateRangeActive :: "SearchFilters \<Rightarrow> bool" where
  "dateRangeActive f =
     (case dateRange f of None \<Rightarrow> False
      | Some r \<Rightarrow> truthy (range_start r) \<or> truthy (range_end r))"

definition filterConditions :: "date_parser \<Rightarrow> SearchFilters \<Rightarrow> (AreaData \<Rightarrow> bool) list" where
  "filterConditions D f =
     (case dnsStatus f of None \<Rightarrow> [] | Some v \<Rightarrow> [dnsCondition v]) @
     (case httpStatus f of None \<Rightarrow> [] | Some v \<Rightarrow> [httpCondition v]) @
     (case whoisStatus f of None \<Rightarrow> [] | Some v \<Rightarrow> [whoisCondition v]) @
     (case wantAnalytics f of None \<Rightarrow> [] | Some v \<Rightarrow> [analyticsCondition v]) @
     (case domainLength f of None \<Rightarrow> []
      | Some r \<Rightarrow> if len_min r \<noteq> None \<or> len_max r \<noteq> None then [lengthCondition r] else []) @
     (if dateRangeActive f then [dateCondition D (the (dateRange f))] else []) @
     (case hasNameservers f of None \<Rightarrow> [] | Some v \<Rightarrow> [nameserversCondition v])"

definition applyFilters :: "date_parser \<Rightarrow> AreaData list \<Rightarrow> SearchFilters \<Rightarrow> AreaData list" where
  "applyFilters D as f =
     (if \<not> hasFilters f then as
      else filter (\<lambda>area. list_all (\<lambda>condition. condition area) (filterConditions D f)) as)"

text \<open>
  Adding filters: \<open>f'\<close> keeps every key that \<open>f\<close> sets, with the same value, and may
  set keys that \<open>f\<close> leaves out.
\<close>

definition addsKey :: "'a option \<Rightarrow> 'a option \<Rightarrow> bool" where
  "addsKey a b = (a = None \<or> a = b)"

definition addsFilters :: "SearchFilters \<Rightarrow> SearchFilters \<Rightarrow> bool" where
  "addsFilters f f' =
     (addsKey (dnsStatus f) (dnsStatus f') \<and> addsKey (httpStatus f) (httpStatus f') \<and>
      addsKey (whoisStatus f) (whoisStatus f') \<and> addsKey (wantAnalytics f) (wantAnalytics f') \<and>
      addsKey (domainLength f) (domainLength f') \<and> addsKey (dateRange f) (dateRange f') \<and>
      addsKey (hasNameservers f) (hasNameservers f') \<and>
      addsKey (searchInTitle f) (searchInTitle f'))"

section \<open>The store (src/stores/appStore.ts)\<close>

text \<open>
  \<open>String.prototype.trim\<close>, \<open>toLowerCase\<close> and \<open>startsWith\<close> on ASCII strings: white
  space is TAB, LF, VT, FF, CR and SPACE; only the letters A to Z have a lower case.
\<close>

definition isWhiteSpace :: "char \<Rightarrow> bool" where
  "isWhiteSpace c = (let n = (of_char c :: nat) in (9 \<le> n \<and> n \<le> 13) \<or> n = 32)"

definition trim :: "string \<Rightarrow> string" where
  "trim s = rev (dropWhile isWhiteSpace (rev (dropWhile isWhiteSpace s)))"

definition lowerChar :: "char \<Rightarrow> char" where
  "lowerChar c = (let n = (of_char c :: nat) in if 65 \<le> n \<and> n \<le> 90 then char_of (n + 32) else c)"

definition toLowerCase :: "string \<Rightarrow> string" where
  "toLowerCase s = map lowerChar s"

definition startsWith :: "string \<Rightarrow> string \<Rightarrow> bool" where
  "startsWith s p = prefix p s"

text \<open>\<open>Array.from(new Set(xs))\<close>: the elements in the order of their first occurrence.\<close>

definition arrayFromSet :: "'a list \<Rightarrow> 'a list" where
  "arrayFromSet xs = fold (\<lambda>x acc. if x \<in> set acc then acc else acc @ [x]) xs []"

definition SEARCH_LIMIT :: nat where
  "SEARCH_LIMIT = 1000"

definition MIN_MATCH_CHAR_LENGTH :: nat where
  "MIN_MATCH_CHAR_LENGTH = 2"

text \<open>
  The fuzzy index is the library Fuse.js. An index is its \<open>search\<close> method followed
  by \<open>.map(result => result.item)\<close>: from a query and a limit to the matched areas.
  The constructor \<open>new Fuse(areas, options)\<close> is the parameter \<open>F\<close> of \<open>setAppData\<close>.
\<close>

type_synonym fuse_index = "string \<Rightarrow> nat \<Rightarrow> AreaData list"

type_synonym fuse_lib = "AreaData list \<Rightarrow> fuse_index"

record AppStore =
  appData :: "AppData option"
  fuse :: "fuse_index option"
  domainMap :: "(string \<rightharpoonup> AreaData) option"
  query :: string
  results :: "AreaData list"
  filters :: SearchFilters
  selectedDomain :: "string option"
  highlightedAreas :: "string list"

definition initialStore :: AppStore where
  "initialStore = \<lparr>appData = None, fuse = None, domainMap = None, query = [],
     results = [], filters = noFilters, selectedDomain = None, highlightedAreas = []\<rparr>"

definition buildDomainMap :: "AreaData list \<Rightarrow> (string \<rightharpoonup> AreaData)" where
  "buildDomainMap as = fold (\<lambda>area m. m(domain area \<mapsto> area)) as Map.empty"

definition setAppData :: "fuse_lib \<Rightarrow> AppData \<Rightarrow> AppStore \<Rightarrow> AppStore" where
  "setAppData F data st =
     st\<lparr>appData := Some data, fuse := Some (F (areas data)),
        domainMap := Some (buildDomainMap (areas data))\<rparr>"

text \<open>
  The text-search step, which \<open>setSearchQuery\<close> and \<open>setFilters\<close> both carry out
  (the source repeats the block in the two actions).
\<close>

definition searchCandidates :: "fuse_index \<Rightarrow> AppData \<Rightarrow> string \<Rightarrow> AreaData list" where
  "searchCandidates fz data q =
     (let trimmedQuery = trim q
      in if trimmedQuery \<noteq> [] \<and> length trimmedQuery \<ge> MIN_MATCH_CHAR_LENGTH
         then fz trimmedQuery SEARCH_LIMIT
         else if length trimmedQuery > 0 \<and> length trimmedQuery < MIN_MATCH_CHAR_LENGTH
         then take SEARCH_LIMIT
                (filter (\<lambda>area. startsWith (toLowerCase (domain area)) (toLowerCase trimmedQuery) \<or>
                                startsWith (toLowerCase (title area)) (toLowerCase trimmedQuery))
                   (areas data))
         else take SEARCH_LIMIT (areas data))"

definition setSearchQuery :: "date_parser \<Rightarrow> string \<Rightarrow> AppStore \<Rightarrow> AppStore" where
  "setSearchQuery D q st =
     (case (fuse st, appData st) of
        (Some fz, Some data) \<Rightarrow>
          (let found = applyFilters D (searchCandidates fz data q) (filters st)
           in st\<lparr>query := q, results := found,
                 highlightedAreas := arrayFromSet (map domain found)\<rparr>)
      | _ \<Rightarrow> st\<lparr>query := q, results := [], highlightedAreas := []\<rparr>)"

definition setFilters :: "date_parser \<Rightarrow> SearchFilters \<Rightarrow> AppStore \<Rightarrow> AppStore" where
  "setFilters D f st =
     (case (fuse st, appData st) of
        (Some fz, Some data) \<Rightarrow>
          (let found = applyFilters D (searchCandidates fz data (query st)) f
           in st\<lparr>filters := f, results := found,
                 highlightedAreas := arrayFromSet (map domain found)\<rparr>)
      | _ \<Rightarrow> st\<lparr>filters := f\<rparr>)"

definition setSelectedDomain :: "string option \<Rightarrow> AppStore \<Rightarrow> AppStore" where
  "setSelectedDomain d st = st\<lparr>selectedDomain := d\<rparr>"

definition clearSearch :: "AppStore \<Rightarrow> AppStore" where
  "clearSearch st = st\<lparr>query := [], results := [], filters := noFilters,
     selectedDomain := None, highlightedAreas := []\<rparr>"

definition highlightDomain :: "string \<Rightarrow> AppStore \<Rightarrow> AppStore" where
  "highlightDomain d st =
     (if d \<notin> set (highlightedAreas st)
      then st\<lparr>highlightedAreas := highlightedAreas st @ [d]\<rparr> else st)"

definition clearHighlights :: "AppStore \<Rightarrow> AppStore" where
  "clearHighlights st = st\<lparr>highlightedAreas := []\<rparr>"

datatype action =
    SetAppData AppData
  | SetSearchQuery string
  | SetFilters SearchFilters
  | SetSelectedDomain "string option"
  | ClearSearch
  | HighlightDomain string
  | ClearHighlights

fun step :: "date_parser \<Rightarrow> fuse_lib \<Rightarrow> AppStore \<Rightarrow> action \<Rightarrow> AppStore" where
  "step D F st (SetAppData data) = setAppData F data st"
| "step D F st (SetSearchQuery q) = setSearchQuery D q st"
| "step D F st (SetFilters f) = setFilters D f st"
| "step D F st (SetSelectedDomain d) = setSelectedDomain d st"
| "step D F st ClearSearch = clearSearch st"
| "step D F st (HighlightDomain d) = highlightDomain d st"
| "step D F st ClearHighlights = clearHighlights st"

definition run :: "date_parser \<Rightarrow> fuse_lib \<Rightarrow> action list \<Rightarrow> AppStore \<Rightarrow> AppStore" where
  "run D F acts st = foldl (step D F) st acts"

text \<open>The actions of the query coordinator: every action but the dataset load.\<close>

fun queryAction :: "action \<Rightarrow> bool" where
  "queryAction (SetAppData data) = False"
| "queryAction a = True"

text \<open>A store with a loaded registry: the initial store after \<open>setAppData\<close>.\<close>

definition loaded :: "fuse_lib \<Rightarrow> AppData \<Rightarrow> AppStore" where
  "loaded F data = setAppData F data initialStore"

text \<open>
  The filter step as the filter engine's description words it, one predicate per
  active key: the status keys compare with the field of the analytics record (an
  absent record or field never equals the filter value); \<open>hasAnalytics\<close> compares
  the derived flag; \<open>domainLength\<close> bounds the length of the domain inclusively where
  a bound is given; \<open>dateRange\<close>, when it has a start or an end, needs a
  \<open>registered_at\<close> and bounds its date inclusively where a bound is given;
  \<open>hasNameservers\<close> compares with "the nameserver list is non-empty".
\<close>

definition passesFilters :: "date_parser \<Rightarrow> SearchFilters \<Rightarrow> AreaData \<Rightarrow> bool" where
  "passesFilters D f a =
     ((case dnsStatus f of None \<Rightarrow> True
       | Some v \<Rightarrow> (case analytics a of None \<Rightarrow> False | Some an \<Rightarrow> dns_status an = Some v)) \<and>
      (case httpStatus f of None \<Rightarrow> True
       | Some v \<Rightarrow> (case analytics a of None \<Rightarrow> False
                   | Some an \<Rightarrow> (case http_status an of None \<Rightarrow> False
                                | Some n \<Rightarrow> toString n = v))) \<and>
      (case whoisStatus f of None \<Rightarrow> True
       | Some v \<Rightarrow> (case analytics a of None \<Rightarrow> False | Some an \<Rightarrow> whois_status an = Some v)) \<and>
      (case wantAnalytics f of None \<Rightarrow> True | Some v \<Rightarrow> hasAnalytics a = v) \<and>
      (case domainLength f of None \<Rightarrow> True
       | Some r \<Rightarrow>
           (case len_min r of None \<Rightarrow> True | Some lo \<Rightarrow> lo \<le> int (length (domain a))) \<and>
           (case len_max r of None \<Rightarrow> True | Some hi \<Rightarrow> int (length (domain a)) \<le> hi)) \<and>
      (case dateRange f of None \<Rightarrow> True
       | Some r \<Rightarrow>
           if truthy (range_start r) \<or> truthy (range_end r)
           then (case analytics a of None \<Rightarrow> False
                 | Some an \<Rightarrow>
                     truthy (registered_at an) \<and>
                     (truthy (range_start r) \<longrightarrow>
                        date_ge (D (the (registered_at an))) (D (the (range_start r)))) \<and>
                     (truthy (range_end r) \<longrightarrow>
                        date_le (D (the (registered_at an))) (D (the (range_end r)))))
           else True) \<and>
      (case hasNameservers f of None \<Rightarrow> True
       | Some v \<Rightarrow> (case analytics a of None \<Rightarrow> \<not> v
                   | Some an \<Rightarrow> (case nameservers an of None \<Rightarrow> \<not> v
                                | Some ns \<Rightarrow> (ns \<noteq> []) = v))))"

text \<open>
  The result list as the query state's invariant describes it, with the cap of 1000
  candidates: the text-search step for the trimmed query (the fuzzy index from two
  characters on, a prefix match on domain or title for one character, the registry
  itself for none), then the areas that pass the filter step.
\<close>

definition expectedResults ::
    "date_parser \<Rightarrow> fuse_index \<Rightarrow> AreaData list \<Rightarrow> string \<Rightarrow> SearchFilters \<Rightarrow> AreaData list" where
  "expectedResults D index registry q f =
     (let t = trim q;
          candidates =
            (if length t \<ge> 2 then index t 1000
             else if length t = 1
             then take 1000 (filter (\<lambda>a. prefix (toLowerCase t) (toLowerCase (domain a)) \<or>
                                         prefix (toLowerCase t) (toLowerCase (title a))) registry)
             else take 1000 registry)
      in filter (passesFilters D f) candidates)"

text \<open>The by-domain lookup map of the overlay component (src/components/InteractiveMap.tsx).\<close>

definition domainLookupMap :: "AppData option \<Rightarrow> (string \<rightharpoonup> AreaData)" where
  "domainLookupMap data =
     (case data of None \<Rightarrow> Map.empty
      | Some d \<Rightarrow> fold (\<lambda>area m. m(domain area \<mapsto> area)) (areas d) Map.empty)"

section \<open>Export input (src/components/ExportData.tsx)\<close>

datatype ExportFormat = Csv | Json | Txt

record ExportOptions =
  format :: ExportFormat
  includeAnalytics :: bool
  includeCoordinates :: bool
  includeTimestamps :: bool
  onlyFiltered :: bool

definition getDataToExport :: "ExportOptions \<Rightarrow> AppStore \<Rightarrow> AreaData list" where
  "getDataToExport exportOptions st =
     (if onlyFiltered exportOptions \<and> length (results st) > 0 then results st
      else (case appData st of Some d \<Rightarrow> areas d | None \<Rightarrow> []))"

definition defaultExportOptions :: ExportOptions where
  "defaultExportOptions = \<lparr>format = Csv, includeAnalytics = True,
     includeCoordinates = False, includeTimestamps = True, onlyFiltered = True\<rparr>"

section \<open>Tooltip placement (InteractiveMap.tsx, DomainTooltip.tsx, constants/index.ts)\<close>

text \<open>
  Pointer and viewport coordinates are whole pixels (\<open>int\<close>). The hover handler of
  the overlay turns the pointer \<open>(clientX, clientY)\<close> into the tooltip's anchor
  \<open>tooltip.position\<close>; the tooltip component turns the anchor into \<open>left\<close> and \<open>top\<close>
  (the fields \<open>left_px\<close> and \<open>top_px\<close>).
  The test \<open>mouseY > viewportHeight / 2\<close> is written \<open>2 * mouseY > viewportHeight\<close>.
\<close>

definition OFFSET_X :: int where
  "OFFSET_X = 15"

definition OFFSET_Y :: int where
  "OFFSET_Y = - 10"

record Position =
  pos_x :: int
  pos_y :: int

record Viewport =
  innerWidth :: int
  innerHeight :: int

record Placement =
  left_px :: int
  top_px :: int

definition shouldPositionAbove :: "Viewport \<Rightarrow> int \<Rightarrow> bool" where
  "shouldPositionAbove w mouseY =
     (let tooltipHeight = 200; viewportHeight = innerHeight w
      in 2 * mouseY > viewportHeight \<or> mouseY + tooltipHeight > viewportHeight - 20)"

definition hoverPosition :: "Viewport \<Rightarrow> int \<Rightarrow> int \<Rightarrow> Position" where
  "hoverPosition w clientX clientY =
     \<lparr>pos_x = clientX + OFFSET_X,
      pos_y = (if shouldPositionAbove w clientY then clientY - 200 - 10
               else clientY + OFFSET_Y)\<rparr>"

text \<open>The anchor that \<open>handleMouseMove\<close> sets while the tooltip is visible.\<close>

definition movePosition :: "int \<Rightarrow> int \<Rightarrow> Position" where
  "movePosition clientX clientY = \<lparr>pos_x = clientX + OFFSET_X, pos_y = clientY + OFFSET_Y\<rparr>"

definition getTooltipPosition :: "Viewport \<Rightarrow> Position \<Rightarrow> Placement" where
  "getTooltipPosition w position =
     (let tooltipWidth = 320; tooltipHeight = 300; padding = 20;
          left0 = pos_x position + 5;
          top0 = pos_y position + 5;
          left1 = (if left0 + tooltipWidth > innerWidth w - padding
                   then pos_x position - tooltipWidth - 5 else left0);
          left2 = (if left1 < padding then padding else left1);
          top1 = (if top0 + tooltipHeight > innerHeight w - padding
                  then pos_y position - tooltipHeight + 100 else top0);
          top2 = (if top1 < padding then padding else top1)
      in \<lparr>left_px = left2, top_px = top2\<rparr>)"

text \<open>Where the tooltip appears when the pointer enters a region.\<close>

definition tooltipPlacement :: "Viewport \<Rightarrow> int \<Rightarrow> int \<Rightarrow> Placement" where
  "tooltipPlacement w clientX clientY = getTooltipPosition w (hoverPosition w clientX clientY)"

text \<open>
  The reference placement of the tooltip positioner, for the horizontal axis:
  default \<open>left = pointer.x + 15\<close>; flipped to \<open>pointer.x - 320 - 5\<close> when
  \<open>left + 320 > viewport.width - 20\<close>; clamped to at least 20.
\<close>

definition referenceLeft :: "Viewport \<Rightarrow> int \<Rightarrow> int" where
  "referenceLeft w pointerX =
     (let l = pointerX + 15;
          l' = (if l + 320 > innerWidth w - 20 then pointerX - 320 - 5 else l)
      in max l' 20)"

section \<open>Dataset load with retry (src/App.tsx)\<close>













text \<open>
  The component state that the load touches. \<open>timers\<close> and \<open>attemptsMade\<close> are
  bookkeeping of the model: the delays (in ms) of the retry timers set so far, and
  the number of times \<open>loadAppData\<close> has run. The progress indicator is left out.
\<close>

record LoaderState =
  loading :: bool
  error :: "string option"
  retryCount :: nat
  isOnline :: bool
  store :: AppStore
  timers :: "nat list"
  attemptsMade :: nat







definition handleOffline :: "LoaderState \<Rightarrow> LoaderState" where
  "handleOffline st =
     (let st1 = st\<lparr>isOnline := False\<rparr>
      in if loading st
         then st1\<lparr>error := Some ''Connection lost. Please check your internet connection.'',
                 loading := False\<rparr>
         else st1)"


section \<open>Coordinate parsing\<close>

text \<open>\<open>s.split(',')\<close>: the pieces between the commas; the empty string has one empty piece.\<close>

fun splitComma :: "string \<Rightarrow> string list" where
  "splitComma [] = [[]]"
| "splitComma (c # cs) =
     (if c = CHR '','' then [] # splitComma cs
      else (case splitComma cs of [] \<Rightarrow> [[c]] | w # ws \<Rightarrow> (c # w) # ws))"

text \<open>
  \<open>Number(s)\<close> on decimal integer literals: white space around the literal is
  skipped, the empty string is 0, a sign may precede the digits. \<open>None\<close> is \<open>NaN\<close>.
  Literals with a fraction, an exponent or a radix prefix, and \<open>Infinity\<close>, are
  outside this model (they read as \<open>None\<close> here).
\<close>

definition isDigit :: "char \<Rightarrow> bool" where
  "isDigit c = (let n = (of_char c :: nat) in 48 \<le> n \<and> n \<le> 57)"

definition digitsValue :: "string \<Rightarrow> nat" where
  "digitsValue ds = foldl (\<lambda>n c. 10 * n + (of_char c - 48)) 0 ds"

definition unsignedNumber :: "string \<Rightarrow> int option" where
  "unsignedNumber ds = (if ds \<noteq> [] \<and> list_all isDigit ds then Some (int (digitsValue ds)) else None)"

definition jsNumber :: "string \<Rightarrow> int option" where
  "jsNumber s =
     (case trim s of
        [] \<Rightarrow> Some 0
      | c # cs \<Rightarrow>
          if c = CHR ''-'' then map_option uminus (unsignedNumber cs)
          else if c = CHR ''+'' then unsignedNumber cs
          else unsignedNumber (c # cs))"

subsection \<open>The offline script (parse-area-map.js)\<close>

text \<open>
  The script reads the \<open>coords\<close> attribute, maps \<open>Number\<close> over its pieces and
  destructures the first four. A member of the result is \<open>None\<close> when it is \<open>NaN\<close>
  or \<open>undefined\<close> (a piece that is missing or not a number).
\<close>

record RawCoordinates =
  raw_x :: "int option"
  raw_y :: "int option"
  raw_width :: "int option"
  raw_height :: "int option"

definition element :: "int option list \<Rightarrow> nat \<Rightarrow> int option" where
  "element xs i = (if i < length xs then xs ! i else None)"

definition numSub :: "int option \<Rightarrow> int option \<Rightarrow> int option" where
  "numSub a b = (case (a, b) of (Some m, Some n) \<Rightarrow> Some (m - n) | _ \<Rightarrow> None)"

definition areaMapCoordinates :: "string \<Rightarrow> RawCoordinates" where
  "areaMapCoordinates coordsAttr =
     (let coords = map jsNumber (splitComma coordsAttr);
          x1 = element coords 0; y1 = element coords 1;
          x2 = element coords 2; y2 = element coords 3
      in \<lparr>raw_x = x1, raw_y = y1, raw_width = numSub x2 x1, raw_height = numSub y2 y1\<rparr>)"

subsection \<open>\<open>coordinateUtils.parseMapCoordinates\<close> (src/utils/index.ts)\<close>

definition parseMapCoordinates :: "string \<Rightarrow> AreaCoordinates option" where
  "parseMapCoordinates coords =
     (if coords = [] then None
      else (let coordArray = map jsNumber (splitComma coords)
            in if length coordArray \<noteq> 4 \<or> list_ex (\<lambda>n. n = None) coordArray then None
               else (let x1 = the (coordArray ! 0); y1 = the (coordArray ! 1);
                         x2 = the (coordArray ! 2); y2 = the (coordArray ! 3)
                     in Some \<lparr>coord_x = min x1 x2, coord_y = min y1 y2,
                              coord_width = \<bar>x2 - x1\<bar>, coord_height = \<bar>y2 - y1\<bar>\<rparr>)))"

subsection \<open>The overlay (src/components/InteractiveMap.tsx)\<close>

record HtmlMapArea =
  coords :: string
  html_href :: string
  html_title :: string
  html_domain :: string

text \<open>An area to render is an \<open>AreaData\<close> of the dataset or an area of the HTML map.\<close>

datatype MapArea = DataArea AreaData | HtmlArea HtmlMapArea

definition areaDomain :: "MapArea \<Rightarrow> string" where
  "areaDomain area = (case area of DataArea a \<Rightarrow> domain a | HtmlArea h \<Rightarrow> html_domain h)"

definition ORIGINAL_WIDTH :: int where
  "ORIGINAL_WIDTH = 1000"

definition ORIGINAL_HEIGHT :: int where
  "ORIGINAL_HEIGHT = 1000"

definition isHighlighted :: "string list \<Rightarrow> string option \<Rightarrow> string \<Rightarrow> bool" where
  "isHighlighted highlighted selected d = (d \<in> set highlighted \<or> selected = Some d)"

definition areasToRender :: "HtmlMapArea list \<Rightarrow> AppData \<Rightarrow> MapArea list" where
  "areasToRender htmlMapAreas data =
     (if length htmlMapAreas > 0 then map HtmlArea htmlMapAreas else map DataArea (areas data))"

definition uniqueKey :: "MapArea \<Rightarrow> nat \<Rightarrow> string" where
  "uniqueKey area index =
     (case area of
        HtmlArea h \<Rightarrow> ''html-'' @ html_domain h @ ''-'' @ coords h @ ''-'' @ digits10 index
      | DataArea a \<Rightarrow>
          ''area-'' @ toString (if area_id a \<noteq> 0 then area_id a else int index) @ ''-'' @ domain a)"

text \<open>The validity test that the overlay applies to a parsed rectangle.\<close>

definition withinBounds :: "AreaCoordinates \<Rightarrow> bool" where
  "withinBounds c =
     (coord_x c \<ge> 0 \<and> coord_y c \<ge> 0 \<and> coord_x c + coord_width c \<le> ORIGINAL_WIDTH \<and>
      coord_y c + coord_height c \<le> ORIGINAL_HEIGHT \<and> coord_width c > 0 \<and> coord_height c > 0)"

definition htmlCoordinates :: "string \<Rightarrow> AreaCoordinates option" where
  "htmlCoordinates c =
     (let cs = map jsNumber (splitComma c)
      in if length cs = 4 \<and> \<not> list_ex (\<lambda>n. n = None) cs
         then (let r = \<lparr>coord_x = min (the (cs ! 0)) (the (cs ! 2)),
                         coord_y = min (the (cs ! 1)) (the (cs ! 3)),
                         coord_width = \<bar>the (cs ! 2) - the (cs ! 0)\<bar>,
                         coord_height = \<bar>the (cs ! 3) - the (cs ! 1)\<bar>\<rparr>
               in if withinBounds r then Some r else None)
         else None)"

definition areaCoordinates :: "MapArea \<Rightarrow> AreaCoordinates option" where
  "areaCoordinates area =
     (case area of
        HtmlArea h \<Rightarrow> htmlCoordinates (coords h)
      | DataArea a \<Rightarrow>
          Some \<lparr>coord_x = coord_x (coordinates a), coord_y = coord_y (coordinates a),
                coord_width = coord_width (coordinates a),
                coord_height = coord_height (coordinates a)\<rparr>)"

text \<open>
  \<open>parsedCoordinates\<close>: a \<open>Map\<close> from the unique key of each area to its rectangle,
  or to \<open>null\<close> (the inner \<open>None\<close>) when the area is rejected.
\<close>

definition parsedCoordinates :: "MapArea list \<Rightarrow> (string \<rightharpoonup> AreaCoordinates option)" where
  "parsedCoordinates as =
     fold (\<lambda>(index, area) coordMap. coordMap(uniqueKey area index \<mapsto> areaCoordinates area))
       (enumerate 0 as) Map.empty"

text \<open>
  One layer of the overlay: the regions drawn for a list of areas, each with the
  rectangle it is drawn at. An area whose key has no rectangle in the map is skipped.
\<close>

definition renderLayer ::
    "(string \<rightharpoonup> AreaCoordinates option) \<Rightarrow> MapArea list \<Rightarrow> (MapArea \<times> AreaCoordinates) list" where
  "renderLayer coordMap layer =
     List.map_filter
       (\<lambda>(index, area). case coordMap (uniqueKey area index) of
                           Some (Some c) \<Rightarrow> Some (area, c) | _ \<Rightarrow> None)
       (enumerate 0 layer)"

text \<open>The regions of both layers: the highlighted shapes, then the plain hit targets.\<close>

definition renderOverlay ::
    "HtmlMapArea list \<Rightarrow> AppData \<Rightarrow> string list \<Rightarrow> string option \<Rightarrow> (MapArea \<times> AreaCoordinates) list" where
  "renderOverlay htmlMapAreas data highlighted selected =
     (let as = areasToRender htmlMapAreas data;
          coordMap = parsedCoordinates as;
          highlightedAreasToRender = filter (\<lambda>a. isHighlighted highlighted selected (areaDomain a)) as;
          nonHighlightedAreas = filter (\<lambda>a. \<not> isHighlighted highlighted selected (areaDomain a)) as
      in renderLayer coordMap highlightedAreasToRender @ renderLayer coordMap nonHighlightedAreas)"

section \<open>Fixtures and auxiliary predicates\<close>

text \<open>
  A dataset of two areas, the second with a rectangle that leaves the image, and a
  fuzzy index that matches nothing.
\<close>

definition scenarioData :: AppData where
  "scenarioData = \<lparr>metadata = \<lparr>totalAreas = 2\<rparr>,
     areas = [
       \<lparr>area_id = 0, domain = ''a.com'', title = ''A'', href = ''http://a.com'',
        coordinates = \<lparr>coord_x = 0, coord_y = 0, coord_width = 10, coord_height = 10\<rparr>,
        rawCoords = [0, 0, 10, 10], analytics = None, hasAnalytics = False\<rparr>,
       \<lparr>area_id = 1, domain = ''b.com'', title = ''B'', href = ''http://b.com'',
        coordinates = \<lparr>coord_x = 990, coord_y = 990, coord_width = 50, coord_height = 50\<rparr>,
        rawCoords = [990, 990, 1040, 1040], analytics = None, hasAnalytics = False\<rparr>]\<rparr>"

definition emptyFuse :: fuse_lib where
  "emptyFuse as q limit = []"

text \<open>The three-area dataset of the end-to-end scenario.\<close>

definition analytics_a :: DomainAnalytics where
  "analytics_a = \<lparr>an_domain = ''a.com'', dns_status = Some NOERROR, http_status = Some 200,
     whois_status = Some W_registered, analyzed_at = None, registered_at = None,
     expiry_date = None, last_updated = None, nameservers = Some [''ns1.a.com'']\<rparr>"

definition analytics_c :: DomainAnalytics where
  "analytics_c = \<lparr>an_domain = ''c.org'', dns_status = Some NXDOMAIN, http_status = Some 0,
     whois_status = Some W_available, analyzed_at = None, registered_at = None,
     expiry_date = None, last_updated = None, nameservers = Some []\<rparr>"

definition area_a :: AreaData where
  "area_a = \<lparr>area_id = 0, domain = ''a.com'', title = ''A'', href = ''http://a.com'',
     coordinates = \<lparr>coord_x = 0, coord_y = 0, coord_width = 10, coord_height = 10\<rparr>,
     rawCoords = [0, 0, 10, 10], analytics = Some analytics_a, hasAnalytics = True\<rparr>"

definition area_b :: AreaData where
  "area_b = \<lparr>area_id = 1, domain = ''b.com'', title = ''B'', href = ''http://b.com'',
     coordinates = \<lparr>coord_x = 990, coord_y = 990, coord_width = 50, coord_height = 50\<rparr>,
     rawCoords = [990, 990, 1040, 1040], analytics = None, hasAnalytics = False\<rparr>"

definition area_c :: AreaData where
  "area_c = \<lparr>area_id = 2, domain = ''c.org'', title = ''C'', href = ''http://c.org'',
     coordinates = \<lparr>coord_x = 20, coord_y = 0, coord_width = 10, coord_height = 10\<rparr>,
     rawCoords = [20, 0, 30, 10], analytics = Some analytics_c, hasAnalytics = True\<rparr>"

definition scenario :: "AreaData list" where
  "scenario = [area_a, area_b, area_c]"

definition noDates :: date_parser where
  "noDates s = None"

text \<open>
  An area lacks a field that an active analytics-based filter constrains; the
  \<open>hasNameservers\<close> filter counts here only when it asks for nameservers.
\<close>

definition lacksConstrainedField :: "SearchFilters \<Rightarrow> AreaData \<Rightarrow> bool" where
  "lacksConstrainedField f a =
     ((dnsStatus f \<noteq> None \<and> Option.bind (analytics a) dns_status = None) \<or>
      (httpStatus f \<noteq> None \<and> Option.bind (analytics a) http_status = None) \<or>
      (whoisStatus f \<noteq> None \<and> Option.bind (analytics a) whois_status = None) \<or>
      (dateRangeActive f \<and> Option.bind (analytics a) registered_at = None) \<or>
      (hasNameservers f = Some True \<and> Option.bind (analytics a) nameservers = None))"

text \<open>The invariant of the query coordinator over a loaded store.\<close>

definition coordinatorInv :: "date_parser \<Rightarrow> fuse_lib \<Rightarrow> AppData \<Rightarrow> AppStore \<Rightarrow> bool" where
  "coordinatorInv D F data s =
     (fuse s = Some (F (areas data)) \<and> appData s = Some data \<and>
      (results s = expectedResults D (F (areas data)) (areas data) (query s) (filters s) \<or>
       (results s = [] \<and> query s = [] \<and> filters s = noFilters)))"

section \<open>Properties of the filter engine\<close>

lemma applyFilters_filter:
  "applyFilters D as f =
     filter (\<lambda>area. list_all (\<lambda>condition. condition area) (filterConditions D f)) as"
proof (cases "hasFilters f")
  case True
  then show ?thesis by (simp add: applyFilters_def)
next
  case False
  then have "filterConditions D f = []"
    by (simp add: hasFilters_def filterConditions_def dateRangeActive_def)
  with False show ?thesis by (simp add: applyFilters_def)
qed

lemma conditions_antimono:
  assumes "addsFilters f f'"
    and "list_all (\<lambda>c. c a) (filterConditions D f')"
  shows "list_all (\<lambda>c. c a) (filterConditions D f)"
proof -
  have k1: "addsKey (dnsStatus f) (dnsStatus f')" and k2: "addsKey (httpStatus f) (httpStatus f')"
    and k3: "addsKey (whoisStatus f) (whoisStatus f')"
    and k4: "addsKey (wantAnalytics f) (wantAnalytics f')"
    and k5: "addsKey (domainLength f) (domainLength f')"
    and k6: "addsKey (dateRange f) (dateRange f')"
    and k7: "addsKey (hasNameservers f) (hasNameservers f')"
    using assms(1) by (simp_all add: addsFilters_def)
  have c: "list_all (\<lambda>c. c a) (filterConditions D f')" by (rule assms(2))
  have d1: "list_all (\<lambda>c. c a) (case dnsStatus f of None \<Rightarrow> [] | Some v \<Rightarrow> [dnsCondition v])"
    using k1 c by (auto simp: addsKey_def filterConditions_def split: option.splits)
  have d2: "list_all (\<lambda>c. c a) (case httpStatus f of None \<Rightarrow> [] | Some v \<Rightarrow> [httpCondition v])"
    using k2 c by (auto simp: addsKey_def filterConditions_def split: option.splits)
  have d3: "list_all (\<lambda>c. c a) (case whoisStatus f of None \<Rightarrow> [] | Some v \<Rightarrow> [whoisCondition v])"
    using k3 c by (auto simp: addsKey_def filterConditions_def split: option.splits)
  have d4: "list_all (\<lambda>c. c a)
      (case wantAnalytics f of None \<Rightarrow> [] | Some v \<Rightarrow> [analyticsCondition v])"
    using k4 c by (auto simp: addsKey_def filterConditions_def split: option.splits)
  have d5: "list_all (\<lambda>c. c a) (case domainLength f of None \<Rightarrow> []
      | Some r \<Rightarrow> if len_min r \<noteq> None \<or> len_max r \<noteq> None then [lengthCondition r] else [])"
  proof (cases "domainLength f")
    case None
    then show ?thesis by simp
  next
    case (Some r)
    with k5 have "domainLength f' = Some r" by (simp add: addsKey_def)
    with c Some show ?thesis by (simp add: filterConditions_def)
  qed
  have d6: "list_all (\<lambda>c. c a)
      (if dateRangeActive f then [dateCondition D (the (dateRange f))] else [])"
  proof (cases "dateRange f")
    case None
    then show ?thesis by (simp add: dateRangeActive_def)
  next
    case (Some r)
    with k6 have "dateRange f' = Some r" by (simp add: addsKey_def)
    with c Some show ?thesis by (auto simp: filterConditions_def dateRangeActive_def)
  qed
  have d7: "list_all (\<lambda>c. c a)
      (case hasNameservers f of None \<Rightarrow> [] | Some v \<Rightarrow> [nameserversCondition v])"
    using k7 c by (auto simp: addsKey_def filterConditions_def split: option.splits)
  show ?thesis
    unfolding filterConditions_def list_all_append
    using d1 d2 d3 d4 d5 d6 d7 by blast
qed

lemma filter_length_mono:
  "(\<And>x. P x \<Longrightarrow> Q x) \<Longrightarrow> length (filter P xs) \<le> length (filter Q xs)"
  by (induction xs) auto

lemma filter_subseq_mono:
  "(\<And>x. P x \<Longrightarrow> Q x) \<Longrightarrow> subseq (filter P xs) (filter Q xs)"
  by (induction xs) auto


lemma condition_excludes:
  assumes "c \<in> set (filterConditions D f)" and "\<not> c a"
  shows "a \<notin> set (applyFilters D as f)"
  using assms by (auto simp: applyFilters_filter list_all_iff)

text \<open>
  C2. The filtered list is a subsequence of the candidates, it is the candidates
  that satisfy every active condition, and adding filters to the filter set never
  yields more results.
\<close>

theorem applyFilters_and_monotone:
  assumes "addsFilters f f'"
  shows "subseq (applyFilters D as f) as \<and>
         applyFilters D as f =
           filter (\<lambda>area. list_all (\<lambda>condition. condition area) (filterConditions D f)) as \<and>
         subseq (applyFilters D as f') (applyFilters D as f) \<and>
         length (applyFilters D as f') \<le> length (applyFilters D as f)"
proof -
  have imp: "\<And>a. list_all (\<lambda>c. c a) (filterConditions D f') \<Longrightarrow>
                 list_all (\<lambda>c. c a) (filterConditions D f)"
    using assms by (rule conditions_antimono)
  have s1: "subseq (applyFilters D as f) as"
    by (simp add: applyFilters_filter)
  have s2: "subseq (applyFilters D as f') (applyFilters D as f)"
    unfolding applyFilters_filter using imp by (rule filter_subseq_mono)
  have s3: "length (applyFilters D as f') \<le> length (applyFilters D as f)"
    unfolding applyFilters_filter using imp by (rule filter_length_mono)
  from s1 s2 s3 show ?thesis
    using applyFilters_filter by blast
qed

theorem applyFilters_and_monotone_witness:
  "addsFilters noFilters (noFilters\<lparr>whoisStatus := Some W_registered\<rparr>) \<and>
   subseq (applyFilters noDates scenario (noFilters\<lparr>whoisStatus := Some W_registered\<rparr>))
          (applyFilters noDates scenario noFilters) \<and>
   length (applyFilters noDates scenario (noFilters\<lparr>whoisStatus := Some W_registered\<rparr>))
     \<le> length (applyFilters noDates scenario noFilters)"
proof -
  have h: "addsFilters noFilters (noFilters\<lparr>whoisStatus := Some W_registered\<rparr>)"
    by (simp add: addsFilters_def addsKey_def noFilters_def)
  from applyFilters_and_monotone [OF h, of noDates scenario] h show ?thesis
    by blast
qed

text \<open>
  C3, as the code has it. An area that lacks the field constrained by an active
  \<open>dnsStatus\<close>, \<open>httpStatus\<close>, \<open>whoisStatus\<close> or \<open>dateRange\<close> filter, or by
  \<open>hasNameservers = true\<close>, is excluded. Under \<open>hasNameservers = false\<close> an area with
  no nameserver list counts as having no nameservers and is kept.
\<close>

theorem absent_field_excluded:
  "(lacksConstrainedField f a \<longrightarrow> a \<notin> set (applyFilters D as f)) \<and>
   (a \<in> set as \<and> Option.bind (analytics a) nameservers = None \<longrightarrow>
      a \<in> set (applyFilters D as (noFilters\<lparr>hasNameservers := Some False\<rparr>)))"
proof (intro conjI impI)
  assume l: "lacksConstrainedField f a"
  from l consider
      (dns) "dnsStatus f \<noteq> None" "Option.bind (analytics a) dns_status = None"
    | (http) "httpStatus f \<noteq> None" "Option.bind (analytics a) http_status = None"
    | (whois) "whoisStatus f \<noteq> None" "Option.bind (analytics a) whois_status = None"
    | (date) "dateRangeActive f" "Option.bind (analytics a) registered_at = None"
    | (ns) "hasNameservers f = Some True" "Option.bind (analytics a) nameservers = None"
    unfolding lacksConstrainedField_def by argo
  then show "a \<notin> set (applyFilters D as f)"
  proof cases
    case dns
    then obtain v where v: "dnsStatus f = Some v" by auto
    have "dnsCondition v \<in> set (filterConditions D f)"
      by (simp add: filterConditions_def v)
    moreover have "\<not> dnsCondition v a" using dns(2) by (simp add: dnsCondition_def)
    ultimately show ?thesis by (rule condition_excludes)
  next
    case http
    then obtain v where v: "httpStatus f = Some v" by auto
    have "httpCondition v \<in> set (filterConditions D f)"
      by (simp add: filterConditions_def v)
    moreover have "\<not> httpCondition v a" using http(2) by (simp add: httpCondition_def)
    ultimately show ?thesis by (rule condition_excludes)
  next
    case whois
    then obtain v where v: "whoisStatus f = Some v" by auto
    have "whoisCondition v \<in> set (filterConditions D f)"
      by (simp add: filterConditions_def v)
    moreover have "\<not> whoisCondition v a" using whois(2) by (simp add: whoisCondition_def)
    ultimately show ?thesis by (rule condition_excludes)
  next
    case date
    have "dateCondition D (the (dateRange f)) \<in> set (filterConditions D f)"
      using date(1) by (simp add: filterConditions_def)
    moreover have "\<not> dateCondition D (the (dateRange f)) a"
      using date(2) by (simp add: dateCondition_def truthy_def)
    ultimately show ?thesis by (rule condition_excludes)
  next
    case ns
    have "nameserversCondition True \<in> set (filterConditions D f)"
      by (simp add: filterConditions_def ns(1))
    moreover have "\<not> nameserversCondition True a"
      using ns(2) by (simp add: nameserversCondition_def)
    ultimately show ?thesis by (rule condition_excludes)
  qed
next
  assume "a \<in> set as \<and> Option.bind (analytics a) nameservers = None"
  then show "a \<in> set (applyFilters D as (noFilters\<lparr>hasNameservers := Some False\<rparr>))"
    by (simp add: applyFilters_filter filterConditions_def noFilters_def
        dateRangeActive_def nameserversCondition_def)
qed

theorem absent_field_excluded_witness:
  "lacksConstrainedField (noFilters\<lparr>dnsStatus := Some NOERROR\<rparr>) area_b \<and>
   area_b \<notin> set (applyFilters noDates scenario (noFilters\<lparr>dnsStatus := Some NOERROR\<rparr>)) \<and>
   area_b \<in> set scenario \<and> Option.bind (analytics area_b) nameservers = None \<and>
   area_b \<in> set (applyFilters noDates scenario (noFilters\<lparr>hasNameservers := Some False\<rparr>))"
proof -
  have h1: "lacksConstrainedField (noFilters\<lparr>dnsStatus := Some NOERROR\<rparr>) area_b"
    by (simp add: lacksConstrainedField_def noFilters_def area_b_def)
  have h2: "area_b \<in> set scenario \<and> Option.bind (analytics area_b) nameservers = None"
    by (simp add: scenario_def area_b_def)
  from absent_field_excluded [of "noFilters\<lparr>dnsStatus := Some NOERROR\<rparr>" area_b noDates scenario]
    h1 h2 show ?thesis by blast
qed

text \<open>
  C3 as stated fails: with the filter \<open>hasNameservers = false\<close> active, the area
  \<open>b.com\<close>, whose analytics record is null, is in the filtered results.
\<close>

theorem absent_nameservers_counterexample:
  "analytics area_b = None \<and>
   hasNameservers (noFilters\<lparr>hasNameservers := Some False\<rparr>) = Some False \<and>
   applyFilters noDates [area_b] (noFilters\<lparr>hasNameservers := Some False\<rparr>) = [area_b]"
  by (simp add: applyFilters_def hasFilters_def filterConditions_def noFilters_def
      dateRangeActive_def nameserversCondition_def area_b_def)


section \<open>Properties of the store\<close>

lemma arrayFromSet_fold:
  "distinct acc \<Longrightarrow>
   distinct (fold (\<lambda>x acc. if x \<in> set acc then acc else acc @ [x]) xs acc) \<and>
   set (fold (\<lambda>x acc. if x \<in> set acc then acc else acc @ [x]) xs acc) = set acc \<union> set xs"
  by (induction xs arbitrary: acc) auto

lemma distinct_arrayFromSet: "distinct (arrayFromSet xs)"
  using arrayFromSet_fold [of "[]" xs] by (simp add: arrayFromSet_def)

lemma set_arrayFromSet: "set (arrayFromSet xs) = set xs"
  using arrayFromSet_fold [of "[]" xs] by (simp add: arrayFromSet_def)

lemma step_distinct:
  "distinct (highlightedAreas st) \<Longrightarrow> distinct (highlightedAreas (step D F st a))"
  by (cases a)
     (auto simp: setAppData_def setSearchQuery_def setFilters_def setSelectedDomain_def
        clearSearch_def highlightDomain_def clearHighlights_def Let_def distinct_arrayFromSet
        split: option.splits)

lemma foldl_step_distinct:
  "distinct (highlightedAreas st) \<Longrightarrow> distinct (highlightedAreas (foldl (step D F) st acts))"
  by (induction acts arbitrary: st) (simp_all add: step_distinct)

text \<open>
  C10. After any sequence of store actions from the initial store, the list
  \<open>highlightedAreas\<close> has no duplicate entry.
\<close>

theorem highlightedAreas_distinct:
  "distinct (highlightedAreas (run D F acts initialStore))"
  unfolding run_def by (rule foldl_step_distinct) (simp add: initialStore_def)

lemma fold_domain_update:
  "fold (\<lambda>area m. m(domain area \<mapsto> area)) as m0 d =
     (case filter (\<lambda>a. domain a = d) as of [] \<Rightarrow> m0 d | x # xs \<Rightarrow> Some (last (x # xs)))"
  by (induction as arbitrary: m0) (auto split: list.splits)

text \<open>
  C7, as the code has it. The by-domain maps of the store and of the overlay are
  filled by \<open>Map.set\<close> in dataset order, so a lookup returns the last area of the
  dataset with that domain (and nothing when no area has it).
\<close>

theorem domainMap_last_match:
  "domainMap (setAppData F data st) = Some (buildDomainMap (areas data)) \<and>
   buildDomainMap (areas data) d =
     (case filter (\<lambda>a. domain a = d) (areas data) of [] \<Rightarrow> None
      | x # xs \<Rightarrow> Some (last (x # xs))) \<and>
   domainLookupMap (Some data) d = buildDomainMap (areas data) d"
  by (simp add: setAppData_def buildDomainMap_def domainLookupMap_def fold_domain_update)

text \<open>
  C7 as stated fails: of two areas with the domain \<open>a.com\<close>, the lookup returns the
  second, while the first match in dataset order is the first.
\<close>

theorem domainMap_first_match_counterexample:
  "buildDomainMap [area_a, area_a\<lparr>area_id := 7\<rparr>] ''a.com'' = Some (area_a\<lparr>area_id := 7\<rparr>) \<and>
   List.find (\<lambda>a. domain a = ''a.com'') [area_a, area_a\<lparr>area_id := 7\<rparr>] = Some area_a \<and>
   area_a\<lparr>area_id := 7\<rparr> \<noteq> area_a"
  by (simp add: buildDomainMap_def area_a_def)


lemma conditions_passesFilters:
  "list_all (\<lambda>c. c a) (filterConditions D f) = passesFilters D f a"
proof -
  have dns: "list_all (\<lambda>c. c a) (case dnsStatus f of None \<Rightarrow> [] | Some v \<Rightarrow> [dnsCondition v]) =
      (case dnsStatus f of None \<Rightarrow> True
       | Some v \<Rightarrow> (case analytics a of None \<Rightarrow> False | Some an \<Rightarrow> dns_status an = Some v))"
    by (simp add: dnsCondition_def split: option.splits)
  have http: "list_all (\<lambda>c. c a) (case httpStatus f of None \<Rightarrow> [] | Some v \<Rightarrow> [httpCondition v]) =
      (case httpStatus f of None \<Rightarrow> True
       | Some v \<Rightarrow> (case analytics a of None \<Rightarrow> False
                   | Some an \<Rightarrow> (case http_status an of None \<Rightarrow> False
                                | Some n \<Rightarrow> toString n = v)))"
    by (simp add: httpCondition_def split: option.splits)
  have whois: "list_all (\<lambda>c. c a)
        (case whoisStatus f of None \<Rightarrow> [] | Some v \<Rightarrow> [whoisCondition v]) =
      (case whoisStatus f of None \<Rightarrow> True
       | Some v \<Rightarrow> (case analytics a of None \<Rightarrow> False | Some an \<Rightarrow> whois_status an = Some v))"
    by (simp add: whoisCondition_def split: option.splits)
  have flag: "list_all (\<lambda>c. c a)
        (case wantAnalytics f of None \<Rightarrow> [] | Some v \<Rightarrow> [analyticsCondition v]) =
      (case wantAnalytics f of None \<Rightarrow> True | Some v \<Rightarrow> hasAnalytics a = v)"
    by (simp add: analyticsCondition_def split: option.splits)
  have len: "list_all (\<lambda>c. c a) (case domainLength f of None \<Rightarrow> []
        | Some r \<Rightarrow> if len_min r \<noteq> None \<or> len_max r \<noteq> None then [lengthCondition r] else []) =
      (case domainLength f of None \<Rightarrow> True
       | Some r \<Rightarrow>
           (case len_min r of None \<Rightarrow> True | Some lo \<Rightarrow> lo \<le> int (length (domain a))) \<and>
           (case len_max r of None \<Rightarrow> True | Some hi \<Rightarrow> int (length (domain a)) \<le> hi))"
    by (auto simp: lengthCondition_def Let_def split: option.splits)
  have date: "list_all (\<lambda>c. c a)
        (if dateRangeActive f then [dateCondition D (the (dateRange f))] else []) =
      (case dateRange f of None \<Rightarrow> True
       | Some r \<Rightarrow>
           if truthy (range_start r) \<or> truthy (range_end r)
           then (case analytics a of None \<Rightarrow> False
                 | Some an \<Rightarrow>
                     truthy (registered_at an) \<and>
                     (truthy (range_start r) \<longrightarrow>
                        date_ge (D (the (registered_at an))) (D (the (range_start r)))) \<and>
                     (truthy (range_end r) \<longrightarrow>
                        date_le (D (the (registered_at an))) (D (the (range_end r)))))
           else True)"
    by (auto simp: dateRangeActive_def dateCondition_def Let_def truthy_def split: option.splits)
  have ns: "list_all (\<lambda>c. c a)
        (case hasNameservers f of None \<Rightarrow> [] | Some v \<Rightarrow> [nameserversCondition v]) =
      (case hasNameservers f of None \<Rightarrow> True
       | Some v \<Rightarrow> (case analytics a of None \<Rightarrow> \<not> v
                   | Some an \<Rightarrow> (case nameservers an of None \<Rightarrow> \<not> v
                                | Some ns \<Rightarrow> (ns \<noteq> []) = v)))"
    by (auto simp: nameserversCondition_def Let_def split: option.splits)
  show ?thesis
    unfolding filterConditions_def passesFilters_def list_all_append
    by (simp only: dns http whois flag len date ns)
qed

lemma recompute_expected:
  "applyFilters D (searchCandidates fz data q) f = expectedResults D fz (areas data) q f"
proof -
  consider (none) "length (trim q) = 0" | (one) "length (trim q) = 1" | (more) "length (trim q) \<ge> 2"
    by linarith
  then have "searchCandidates fz data q =
     (if length (trim q) \<ge> 2 then fz (trim q) 1000
      else if length (trim q) = 1
      then take 1000 (filter (\<lambda>a. prefix (toLowerCase (trim q)) (toLowerCase (domain a)) \<or>
                                  prefix (toLowerCase (trim q)) (toLowerCase (title a))) (areas data))
      else take 1000 (areas data))"
  proof cases
    case none
    then show ?thesis
      by (simp add: searchCandidates_def SEARCH_LIMIT_def MIN_MATCH_CHAR_LENGTH_def)
  next
    case one
    then show ?thesis
      by (simp add: searchCandidates_def SEARCH_LIMIT_def MIN_MATCH_CHAR_LENGTH_def
          startsWith_def Let_def)
  next
    case more
    then have "trim q \<noteq> []" by auto
    with more show ?thesis
      by (simp add: searchCandidates_def SEARCH_LIMIT_def MIN_MATCH_CHAR_LENGTH_def Let_def)
  qed
  then show ?thesis
    by (simp add: applyFilters_filter expectedResults_def conditions_passesFilters Let_def)
qed

lemma coordinatorInv_loaded: "coordinatorInv D F data (loaded F data)"
  by (simp add: coordinatorInv_def loaded_def setAppData_def initialStore_def)

lemma coordinatorInv_step:
  assumes "coordinatorInv D F data s" and "queryAction a"
  shows "coordinatorInv D F data (step D F s a)"
proof (cases a)
  case (SetAppData d)
  with assms(2) show ?thesis by simp
next
  case (SetSearchQuery q)
  with assms(1) show ?thesis
    by (simp add: coordinatorInv_def setSearchQuery_def recompute_expected Let_def)
next
  case (SetFilters f)
  with assms(1) show ?thesis
    by (simp add: coordinatorInv_def setFilters_def recompute_expected Let_def)
next
  case (SetSelectedDomain d)
  with assms(1) show ?thesis
    by (simp add: coordinatorInv_def setSelectedDomain_def)
next
  case ClearSearch
  with assms(1) show ?thesis
    by (simp add: coordinatorInv_def clearSearch_def)
next
  case (HighlightDomain d)
  with assms(1) show ?thesis
    by (simp add: coordinatorInv_def highlightDomain_def)
next
  case ClearHighlights
  with assms(1) show ?thesis
    by (simp add: coordinatorInv_def clearHighlights_def)
qed

lemma coordinatorInv_foldl:
  "coordinatorInv D F data s \<Longrightarrow> list_all queryAction acts \<Longrightarrow>
   coordinatorInv D F data (foldl (step D F) s acts)"
  by (induction acts arbitrary: s) (simp_all add: coordinatorInv_step)

text \<open>
  C1, as the code has it. In every state \<open>s\<close> reached from a loaded store by the
  coordinator's actions, \<open>results\<close> is the recomputation for the current query and
  filters (text search capped at 1000 candidates, then the filters), or it is empty
  with an empty query and no filters (before the first recomputation and after
  \<open>clearSearch\<close>). Right after \<open>setSearchQuery\<close> and right after \<open>setFilters\<close>, the
  new query (the new filters) is stored, \<open>results\<close> is that recomputation and
  \<open>highlightedAreas\<close> holds exactly the domains of the areas in \<open>results\<close>.
  \<open>highlightDomain\<close> appends the domain to the highlight list unless it is there,
  and \<open>clearHighlights\<close> empties the list; neither touches \<open>results\<close>, the query or
  the filters. \<open>clearSearch\<close> empties results, query, filters and highlights.
  \<open>setSelectedDomain\<close> touches none of them.
\<close>

theorem results_recomputed:
  fixes D :: date_parser and F :: fuse_lib and acts :: "action list" and data :: AppData
    and s :: AppStore
  defines "s \<equiv> run D F acts (loaded F data)"
  assumes "list_all queryAction acts"
  shows "(results s = expectedResults D (F (areas data)) (areas data) (query s) (filters s) \<or>
          (results s = [] \<and> query s = [] \<and> filters s = noFilters)) \<and>
         (\<forall>q. query (setSearchQuery D q s) = q \<and>
               filters (setSearchQuery D q s) = filters s \<and>
               results (setSearchQuery D q s) =
                 expectedResults D (F (areas data)) (areas data) q (filters s) \<and>
               set (highlightedAreas (setSearchQuery D q s)) =
                 domain ` set (results (setSearchQuery D q s))) \<and>
         (\<forall>f. filters (setFilters D f s) = f \<and>
               query (setFilters D f s) = query s \<and>
               results (setFilters D f s) =
                 expectedResults D (F (areas data)) (areas data) (query s) f \<and>
               set (highlightedAreas (setFilters D f s)) =
                 domain ` set (results (setFilters D f s))) \<and>
         (\<forall>d. results (highlightDomain d s) = results s \<and>
               query (highlightDomain d s) = query s \<and>
               filters (highlightDomain d s) = filters s \<and>
               highlightedAreas (highlightDomain d s) =
                 (if d \<in> set (highlightedAreas s) then highlightedAreas s
                  else highlightedAreas s @ [d])) \<and>
         (results (clearHighlights s) = results s \<and>
          query (clearHighlights s) = query s \<and>
          filters (clearHighlights s) = filters s \<and>
          highlightedAreas (clearHighlights s) = []) \<and>
         (results (clearSearch s) = [] \<and> query (clearSearch s) = [] \<and>
          filters (clearSearch s) = noFilters \<and> highlightedAreas (clearSearch s) = []) \<and>
         (\<forall>d. results (setSelectedDomain d s) = results s \<and>
               query (setSelectedDomain d s) = query s \<and>
               filters (setSelectedDomain d s) = filters s \<and>
               highlightedAreas (setSelectedDomain d s) = highlightedAreas s)"
proof -
  have inv: "coordinatorInv D F data s"
    unfolding s_def run_def
    using coordinatorInv_loaded assms(2) by (rule coordinatorInv_foldl)
  then have fz: "fuse s = Some (F (areas data))" and ad: "appData s = Some data"
    by (simp_all add: coordinatorInv_def)
  have a: "results s = expectedResults D (F (areas data)) (areas data) (query s) (filters s) \<or>
          (results s = [] \<and> query s = [] \<and> filters s = noFilters)"
    using inv by (simp add: coordinatorInv_def)
  have b: "query (setSearchQuery D q s) = q \<and>
           filters (setSearchQuery D q s) = filters s \<and>
           results (setSearchQuery D q s) =
             expectedResults D (F (areas data)) (areas data) q (filters s) \<and>
           set (highlightedAreas (setSearchQuery D q s)) =
             domain ` set (results (setSearchQuery D q s))" for q
    by (simp add: setSearchQuery_def fz ad recompute_expected Let_def set_arrayFromSet)
  have c: "filters (setFilters D f s) = f \<and>
           query (setFilters D f s) = query s \<and>
           results (setFilters D f s) =
             expectedResults D (F (areas data)) (areas data) (query s) f \<and>
           set (highlightedAreas (setFilters D f s)) =
             domain ` set (results (setFilters D f s))" for f
    by (simp add: setFilters_def fz ad recompute_expected Let_def set_arrayFromSet)
  have d: "results (highlightDomain d s) = results s \<and>
           query (highlightDomain d s) = query s \<and>
           filters (highlightDomain d s) = filters s \<and>
           highlightedAreas (highlightDomain d s) =
             (if d \<in> set (highlightedAreas s) then highlightedAreas s
              else highlightedAreas s @ [d])" for d
    by (simp add: highlightDomain_def)
  have e: "results (clearHighlights s) = results s \<and>
           query (clearHighlights s) = query s \<and>
           filters (clearHighlights s) = filters s \<and>
           highlightedAreas (clearHighlights s) = []"
    by (simp add: clearHighlights_def)
  have f: "results (clearSearch s) = [] \<and> query (clearSearch s) = [] \<and>
           filters (clearSearch s) = noFilters \<and> highlightedAreas (clearSearch s) = []"
    by (simp add: clearSearch_def)
  have g: "results (setSelectedDomain d s) = results s \<and>
           query (setSelectedDomain d s) = query s \<and>
           filters (setSelectedDomain d s) = filters s \<and>
           highlightedAreas (setSelectedDomain d s) = highlightedAreas s" for d
    by (simp add: setSelectedDomain_def)
  from a b c d e f g show ?thesis by blast
qed

theorem results_recomputed_witness:
  "list_all queryAction [SetSearchQuery ''a'', ClearHighlights] \<and>
   (results (run noDates emptyFuse [SetSearchQuery ''a'', ClearHighlights]
               (loaded emptyFuse scenarioData)) =
      expectedResults noDates (emptyFuse (areas scenarioData)) (areas scenarioData)
        (query (run noDates emptyFuse [SetSearchQuery ''a'', ClearHighlights]
                  (loaded emptyFuse scenarioData)))
        (filters (run noDates emptyFuse [SetSearchQuery ''a'', ClearHighlights]
                    (loaded emptyFuse scenarioData))) \<or>
    results (run noDates emptyFuse [SetSearchQuery ''a'', ClearHighlights]
               (loaded emptyFuse scenarioData)) = [] \<and>
    query (run noDates emptyFuse [SetSearchQuery ''a'', ClearHighlights]
             (loaded emptyFuse scenarioData)) = [] \<and>
    filters (run noDates emptyFuse [SetSearchQuery ''a'', ClearHighlights]
               (loaded emptyFuse scenarioData)) = noFilters)"
proof -
  have h: "list_all queryAction [SetSearchQuery ''a'', ClearHighlights]" by simp
  from results_recomputed [OF h, of noDates emptyFuse scenarioData] h show ?thesis
    by blast
qed

text \<open>
  C1 as stated fails. After \<open>clearSearch\<close> on a loaded store, \<open>results\<close> is empty
  although the query is empty, no filter is set and the registry holds two areas;
  after \<open>highlightDomain\<close>, and after \<open>clearHighlights\<close>, the highlighted domains are
  not the domains of \<open>results\<close>.
\<close>

theorem results_invariant_counterexample:
  "results (run noDates emptyFuse [ClearSearch] (loaded emptyFuse scenarioData)) = [] \<and>
   query (run noDates emptyFuse [ClearSearch] (loaded emptyFuse scenarioData)) = [] \<and>
   filters (run noDates emptyFuse [ClearSearch] (loaded emptyFuse scenarioData)) = noFilters \<and>
   expectedResults noDates (emptyFuse (areas scenarioData)) (areas scenarioData) [] noFilters
     = areas scenarioData \<and>
   areas scenarioData \<noteq> [] \<and>
   ''x.net'' \<in> set (highlightedAreas
      (run noDates emptyFuse [SetSearchQuery [], HighlightDomain ''x.net'']
         (loaded emptyFuse scenarioData))) \<and>
   ''x.net'' \<notin> domain ` set (results
      (run noDates emptyFuse [SetSearchQuery [], HighlightDomain ''x.net'']
         (loaded emptyFuse scenarioData))) \<and>
   highlightedAreas (run noDates emptyFuse [SetSearchQuery [], ClearHighlights]
      (loaded emptyFuse scenarioData)) = [] \<and>
   map domain (results (run noDates emptyFuse [SetSearchQuery [], ClearHighlights]
      (loaded emptyFuse scenarioData))) = [''a.com'', ''b.com'']"
  by (simp add: run_def loaded_def setAppData_def initialStore_def clearSearch_def
      setSearchQuery_def highlightDomain_def clearHighlights_def searchCandidates_def
      applyFilters_def hasFilters_def noFilters_def expectedResults_def passesFilters_def
      dateRangeActive_def trim_def SEARCH_LIMIT_def MIN_MATCH_CHAR_LENGTH_def
      arrayFromSet_def scenarioData_def Let_def)


section \<open>Properties of the export input\<close>

text \<open>
  C9, as the code has it. With only-filtered enabled and a non-empty result list
  the export takes exactly \<open>results\<close>; with only-filtered disabled, or with an empty
  result list, it takes the full registry (nothing when no dataset is loaded).
\<close>

theorem getDataToExport_cases:
  "(onlyFiltered opts \<and> results st \<noteq> [] \<longrightarrow> getDataToExport opts st = results st) \<and>
   (\<not> onlyFiltered opts \<or> results st = [] \<longrightarrow>
      getDataToExport opts st = (case appData st of Some d \<Rightarrow> areas d | None \<Rightarrow> []))"
  by (auto simp: getDataToExport_def)

theorem getDataToExport_cases_witness:
  "onlyFiltered defaultExportOptions \<and>
   results (setSearchQuery noDates [] (loaded emptyFuse scenarioData)) \<noteq> [] \<and>
   getDataToExport defaultExportOptions (setSearchQuery noDates [] (loaded emptyFuse scenarioData))
     = results (setSearchQuery noDates [] (loaded emptyFuse scenarioData)) \<and>
   results (loaded emptyFuse scenarioData) = [] \<and>
   getDataToExport defaultExportOptions (loaded emptyFuse scenarioData) = areas scenarioData"
proof -
  have h1: "onlyFiltered defaultExportOptions \<and>
      results (setSearchQuery noDates [] (loaded emptyFuse scenarioData)) \<noteq> []"
    by (simp add: defaultExportOptions_def setSearchQuery_def loaded_def setAppData_def
        initialStore_def searchCandidates_def trim_def applyFilters_def hasFilters_def
        noFilters_def scenarioData_def SEARCH_LIMIT_def MIN_MATCH_CHAR_LENGTH_def Let_def)
  have h2: "results (loaded emptyFuse scenarioData) = []"
    by (simp add: loaded_def setAppData_def initialStore_def)
  have h3: "appData (loaded emptyFuse scenarioData) = Some scenarioData"
    by (simp add: loaded_def setAppData_def initialStore_def)
  from getDataToExport_cases [of defaultExportOptions
        "setSearchQuery noDates [] (loaded emptyFuse scenarioData)"]
    getDataToExport_cases [of defaultExportOptions "loaded emptyFuse scenarioData"]
    h1 h2 h3
  show ?thesis by simp
qed

text \<open>
  C9 as stated fails: a query that matches nothing leaves \<open>results\<close> empty, and the
  export with only-filtered enabled then takes the two areas of the registry.
\<close>

theorem getDataToExport_counterexample:
  "onlyFiltered defaultExportOptions \<and>
   results (setSearchQuery noDates ''zz'' (loaded emptyFuse scenarioData)) = [] \<and>
   map domain (getDataToExport defaultExportOptions
      (setSearchQuery noDates ''zz'' (loaded emptyFuse scenarioData))) = [''a.com'', ''b.com'']"
  by (simp add: defaultExportOptions_def getDataToExport_def setSearchQuery_def loaded_def
      setAppData_def initialStore_def searchCandidates_def trim_def isWhiteSpace_def
      applyFilters_def hasFilters_def noFilters_def scenarioData_def emptyFuse_def
      SEARCH_LIMIT_def MIN_MATCH_CHAR_LENGTH_def Let_def)

section \<open>Properties of the tooltip placement\<close>

text \<open>
  C6, as the code has it. On entering a region with the pointer at \<open>(x, y)\<close>: the
  tooltip is never nearer than 20 to the left and top edges; its default place is
  \<open>left = x + 20\<close>, \<open>top = y - 5\<close>; when \<open>x + 20 + 320 > width - 20\<close> it flips to
  \<open>left = x - 310\<close> (clamped to 20); when the pointer is in the lower half of the
  viewport or \<open>y + 200 > height - 20\<close> it is placed above the pointer, at
  \<open>top = y - 205\<close>, or at \<open>top = y - 410\<close> if \<open>y - 205 + 300 > height - 20\<close>
  (clamped to 20); otherwise, if \<open>y - 5 + 300 > height - 20\<close>, at \<open>top = y - 210\<close>. A pointer at (950,950) in a 1000 by 1000 viewport gives
  (640, 540); a pointer at (10,10) gives (30, 20).
\<close>

theorem tooltipPlacement_cases:
  "left_px (tooltipPlacement w x y) \<ge> 20 \<and> top_px (tooltipPlacement w x y) \<ge> 20 \<and>
   (x + 340 \<le> innerWidth w - 20 \<longrightarrow> left_px (tooltipPlacement w x y) = max 20 (x + 20)) \<and>
   (x + 340 > innerWidth w - 20 \<longrightarrow> left_px (tooltipPlacement w x y) = max 20 (x - 310)) \<and>
   (\<not> shouldPositionAbove w y \<and> y + 295 \<le> innerHeight w - 20 \<longrightarrow>
      top_px (tooltipPlacement w x y) = max 20 (y - 5)) \<and>
   (\<not> shouldPositionAbove w y \<and> y + 295 > innerHeight w - 20 \<longrightarrow>
      top_px (tooltipPlacement w x y) = max 20 (y - 210)) \<and>
   (shouldPositionAbove w y \<and> y + 95 \<le> innerHeight w - 20 \<longrightarrow>
      top_px (tooltipPlacement w x y) = max 20 (y - 205)) \<and>
   (shouldPositionAbove w y \<and> y + 95 > innerHeight w - 20 \<longrightarrow>
      top_px (tooltipPlacement w x y) = max 20 (y - 410)) \<and>
   tooltipPlacement \<lparr>innerWidth = 1000, innerHeight = 1000\<rparr> 950 950 = \<lparr>left_px = 640, top_px = 540\<rparr> \<and>
   tooltipPlacement \<lparr>innerWidth = 1000, innerHeight = 1000\<rparr> 10 10 = \<lparr>left_px = 30, top_px = 20\<rparr>"
  by (simp add: tooltipPlacement_def getTooltipPosition_def hoverPosition_def
      shouldPositionAbove_def OFFSET_X_def OFFSET_Y_def Let_def)

theorem tooltipPlacement_cases_witness:
  "950 + 340 > innerWidth \<lparr>innerWidth = 1000, innerHeight = 1000\<rparr> - 20 \<and>
   left_px (tooltipPlacement \<lparr>innerWidth = 1000, innerHeight = 1000\<rparr> 950 950) = max 20 (950 - 310) \<and>
   shouldPositionAbove \<lparr>innerWidth = 1000, innerHeight = 1000\<rparr> 950 \<and>
   950 + 95 > innerHeight \<lparr>innerWidth = 1000, innerHeight = 1000\<rparr> - 20 \<and>
   top_px (tooltipPlacement \<lparr>innerWidth = 1000, innerHeight = 1000\<rparr> 950 950) = max 20 (950 - 410)"
  using tooltipPlacement_cases [of "\<lparr>innerWidth = 1000, innerHeight = 1000\<rparr>" 950 950]
  by (simp add: shouldPositionAbove_def)

text \<open>
  C6 as stated fails. For a pointer at (10,10) in a 1000 by 1000 viewport the
  reference gives \<open>left = 25\<close>; the tooltip is placed at \<open>left = 30\<close>, and the tooltip
  component alone, fed the pointer as its anchor, gives \<open>left = 20\<close>. For a pointer
  at (950,950) the reference flips to \<open>left = 625\<close>; the tooltip is placed at 640.
\<close>

theorem tooltipPlacement_counterexample:
  "referenceLeft \<lparr>innerWidth = 1000, innerHeight = 1000\<rparr> 10 = 25 \<and>
   left_px (tooltipPlacement \<lparr>innerWidth = 1000, innerHeight = 1000\<rparr> 10 10) = 30 \<and>
   left_px (getTooltipPosition \<lparr>innerWidth = 1000, innerHeight = 1000\<rparr> \<lparr>pos_x = 10, pos_y = 10\<rparr>) = 20 \<and>
   referenceLeft \<lparr>innerWidth = 1000, innerHeight = 1000\<rparr> 950 = 625 \<and>
   left_px (tooltipPlacement \<lparr>innerWidth = 1000, innerHeight = 1000\<rparr> 950 950) = 640"
  by (simp add: referenceLeft_def tooltipPlacement_def getTooltipPosition_def
      hoverPosition_def shouldPositionAbove_def OFFSET_X_def OFFSET_Y_def Let_def)


section \<open>Properties of the dataset load\<close>











section \<open>Properties of coordinate parsing and of the overlay\<close>

lemmas number_eval =
  jsNumber_def trim_def isWhiteSpace_def unsignedNumber_def isDigit_def digitsValue_def

text \<open>
  \<open>coordinateUtils.parseMapCoordinates\<close> normalises the corner order: whenever the
  four pieces of the string are numbers, the rectangle has the smaller coordinates
  as its origin and the absolute differences as its extent.
\<close>

lemma parseMapCoordinates_normalises:
  assumes "s \<noteq> []"
    and "map jsNumber (splitComma s) = [Some x1, Some y1, Some x2, Some y2]"
  shows "parseMapCoordinates s =
     Some \<lparr>coord_x = min x1 x2, coord_y = min y1 y2,
           coord_width = \<bar>x2 - x1\<bar>, coord_height = \<bar>y2 - y1\<bar>\<rparr>"
  using assms by (simp add: parseMapCoordinates_def)

text \<open>
  At the input \<open>"300,400,100,200"\<close>, \<open>parseMapCoordinates\<close> and the overlay's own
  parsing yield \<open>{x:100, y:200, width:200, height:200}\<close>.
\<close>

lemma sibling_parsers_reversed_corners:
  "parseMapCoordinates ''300,400,100,200'' =
     Some \<lparr>coord_x = 100, coord_y = 200, coord_width = 200, coord_height = 200\<rparr> \<and>
   htmlCoordinates ''300,400,100,200'' =
     Some \<lparr>coord_x = 100, coord_y = 200, coord_width = 200, coord_height = 200\<rparr>"
  by (simp add: parseMapCoordinates_def htmlCoordinates_def withinBounds_def
      ORIGINAL_WIDTH_def ORIGINAL_HEIGHT_def Let_def number_eval)

text \<open>
  C4 at the input \<open>"300,400,100,200"\<close>. The conversion in parse-area-map.js keeps the
  first corner as the origin and yields the negative extents \<open>-200\<close>, so the result
  is not \<open>{x:100, y:200, width:200, height:200}\<close>, the result for
  \<open>"100,200,300,400"\<close>.
\<close>

theorem area_map_reversed_corners:
  "areaMapCoordinates ''300,400,100,200'' =
     \<lparr>raw_x = Some 300, raw_y = Some 400, raw_width = Some (- 200), raw_height = Some (- 200)\<rparr> \<and>
   areaMapCoordinates ''100,200,300,400'' =
     \<lparr>raw_x = Some 100, raw_y = Some 200, raw_width = Some 200, raw_height = Some 200\<rparr>"
  by (simp add: areaMapCoordinates_def element_def numSub_def Let_def number_eval)

lemma htmlCoordinates_valid: "htmlCoordinates s = Some c \<Longrightarrow> withinBounds c"
  by (auto simp: htmlCoordinates_def Let_def split: if_splits)

lemma fold_html_valid:
  assumes "\<forall>(i, a) \<in> set ps. \<exists>h. a = HtmlArea h"
    and "\<forall>k c. m k = Some (Some c) \<longrightarrow> withinBounds c"
    and "fold (\<lambda>(index, area) coordMap. coordMap(uniqueKey area index \<mapsto> areaCoordinates area))
           ps m k = Some (Some c)"
  shows "withinBounds c"
  using assms
proof (induction ps arbitrary: m)
  case Nil
  then show ?case by simp
next
  case (Cons p ps)
  obtain i a where p: "p = (i, a)" by (cases p)
  with Cons.prems(1) obtain h where h: "a = HtmlArea h" by auto
  let ?m = "m(uniqueKey a i \<mapsto> areaCoordinates a)"
  have "\<forall>(i, a) \<in> set ps. \<exists>h. a = HtmlArea h"
    using Cons.prems(1) by simp
  moreover have "\<forall>k c. ?m k = Some (Some c) \<longrightarrow> withinBounds c"
    using Cons.prems(2) h by (auto simp: areaCoordinates_def htmlCoordinates_valid)
  moreover have "fold (\<lambda>(index, area) coordMap.
        coordMap(uniqueKey area index \<mapsto> areaCoordinates area)) ps ?m k = Some (Some c)"
    using Cons.prems(3) p by (simp del: fun_upd_apply)
  ultimately show ?case by (rule Cons.IH)
qed

lemma renderLayer_from_map:
  "(a, c) \<in> set (renderLayer coordMap layer) \<Longrightarrow> \<exists>k. coordMap k = Some (Some c)"
  by (auto simp: renderLayer_def List.map_filter_def split: option.splits)

text \<open>
  When the HTML map is loaded, every region of the overlay is drawn at a rectangle
  that passes the validity test.
\<close>

lemma html_overlay_valid:
  assumes "htmlMapAreas \<noteq> []"
    and "(a, c) \<in> set (renderOverlay htmlMapAreas data highlighted selected)"
  shows "withinBounds c"
proof -
  have as: "areasToRender htmlMapAreas data = map HtmlArea htmlMapAreas"
    using assms(1) by (simp add: areasToRender_def)
  from assms(2) obtain k where k: "parsedCoordinates (map HtmlArea htmlMapAreas) k = Some (Some c)"
    unfolding renderOverlay_def Let_def as using renderLayer_from_map by fastforce
  have "\<forall>(i, a) \<in> set (enumerate 0 (map HtmlArea htmlMapAreas)). \<exists>h. a = HtmlArea h"
    by (auto simp: in_set_enumerate_eq)
  moreover have "\<forall>k c. (Map.empty :: string \<rightharpoonup> AreaCoordinates option) k = Some (Some c)
      \<longrightarrow> withinBounds c"
    by simp
  ultimately show ?thesis
    using k unfolding parsedCoordinates_def by (rule fold_html_valid)
qed

text \<open>
  C5 at the dataset of the scenario with no HTML map loaded. The rectangle
  \<open>{x:990, y:990, width:50, height:50}\<close> of \<open>b.com\<close> fails the validity test, and the
  overlay draws a region at it: the branch for dataset areas copies the rectangle
  without the test. The same rectangle given by an HTML map area
  (\<open>coords="990,990,1040,1040"\<close>) is not drawn.
\<close>

theorem fallback_renders_invalid:
  "\<not> withinBounds \<lparr>coord_x = 990, coord_y = 990, coord_width = 50, coord_height = 50\<rparr> \<and>
   map snd (renderOverlay [] scenarioData [] None) =
     [\<lparr>coord_x = 0, coord_y = 0, coord_width = 10, coord_height = 10\<rparr>,
      \<lparr>coord_x = 990, coord_y = 990, coord_width = 50, coord_height = 50\<rparr>] \<and>
   renderOverlay [\<lparr>coords = ''990,990,1040,1040'', html_href = ''http://b.com'',
                   html_title = ''B'', html_domain = ''b.com''\<rparr>] scenarioData [] None = []"
  by (simp add: withinBounds_def ORIGINAL_WIDTH_def ORIGINAL_HEIGHT_def renderOverlay_def
      areasToRender_def parsedCoordinates_def renderLayer_def isHighlighted_def uniqueKey_def
      areaCoordinates_def areaDomain_def htmlCoordinates_def scenarioData_def toString_def
      digits10.simps digitChar_def List.map_filter_def number_eval)

end
